theory Spec2Isabelle
  imports Complex_Main "HOL-Library.Word" "HOL-Library.Sublist"
begin

section \<open>Helper functions of the notebook utilities\<close>

text \<open>
  The module \<^verbatim>\<open>notebook_utils\<close> is a flat set of helper functions. Each one is
  embedded as a HOL function of the same name. Exceptions are values of \<open>py_error\<close>;
  a function that can raise returns \<open>py_error + 'a\<close> with \<open>Inl\<close> for the exception.
\<close>

datatype py_error =
    ValueError
  | IndexError
  | CvError
  | OSError
  | HTTPError nat string
  | Exception nat string
  | ContentTooShortError

subsection \<open>Pixel data: \<^verbatim>\<open>normalize_minmax\<close>, \<^verbatim>\<open>to_rgb\<close>, \<^verbatim>\<open>to_bgr\<close>\<close>








subsection \<open>Labels and segmentation maps\<close>

text \<open>
  \<^verbatim>\<open>
  class Label(NamedTuple):
      index: int
      color: Tuple
      name: Optional[str] = None

  class SegmentationMap(NamedTuple):
      labels: List
      def get_colormap(self):
          return np.array([label.color for label in self.labels])
      def get_labels(self):
          labelnames = [label.name for label in self.labels]
          if any(labelnames): return labelnames
          else: return None
  \<close>
\<close>

type_synonym rgb = "int \<times> int \<times> int"

record Label =
  index :: int
  color :: rgb
  name :: "string option"

record SegmentationMap =
  labels :: "Label list"

definition get_colormap :: "SegmentationMap \<Rightarrow> rgb list" where
  "get_colormap self = map color (labels self)"

definition get_labels :: "SegmentationMap \<Rightarrow> string option list option" where
  "get_labels self =
     (let labelnames = map name (labels self)
      in if list_ex (\<lambda>n. n \<noteq> None \<and> n \<noteq> Some []) labelnames then Some labelnames else None)"

text \<open>
  Indexing the first axis of an array with a Python integer, \<^verbatim>\<open>colormap[i]\<close>: a negative
  index counts from the end, an index out of range raises \<^verbatim>\<open>IndexError\<close>.
\<close>

definition row_at :: "'a list \<Rightarrow> int \<Rightarrow> py_error + 'a" where
  "row_at xs i =
     (if 0 \<le> i \<and> i < int (length xs) then Inr (xs ! nat i)
      else if i < 0 \<and> - int (length xs) \<le> i then Inr (xs ! nat (int (length xs) + i))
      else Inl IndexError)"

definition cityscape_labels :: "Label list" where
  "cityscape_labels =
     [\<lparr>index = 0, color = (128, 64, 128), name = Some ''road''\<rparr>,
      \<lparr>index = 1, color = (244, 35, 232), name = Some ''sidewalk''\<rparr>,
      \<lparr>index = 2, color = (70, 70, 70), name = Some ''building''\<rparr>,
      \<lparr>index = 3, color = (102, 102, 156), name = Some ''wall''\<rparr>,
      \<lparr>index = 4, color = (190, 153, 153), name = Some ''fence''\<rparr>,
      \<lparr>index = 5, color = (153, 153, 153), name = Some ''pole''\<rparr>,
      \<lparr>index = 6, color = (250, 170, 30), name = Some ''traffic light''\<rparr>,
      \<lparr>index = 7, color = (220, 220, 0), name = Some ''traffic sign''\<rparr>,
      \<lparr>index = 8, color = (107, 142, 35), name = Some ''vegetation''\<rparr>,
      \<lparr>index = 9, color = (152, 251, 152), name = Some ''terrain''\<rparr>,
      \<lparr>index = 10, color = (70, 130, 180), name = Some ''sky''\<rparr>,
      \<lparr>index = 11, color = (220, 20, 60), name = Some ''person''\<rparr>,
      \<lparr>index = 12, color = (255, 0, 0), name = Some ''rider''\<rparr>,
      \<lparr>index = 13, color = (0, 0, 142), name = Some ''car''\<rparr>,
      \<lparr>index = 14, color = (0, 0, 70), name = Some ''truck''\<rparr>,
      \<lparr>index = 15, color = (0, 60, 100), name = Some ''bus''\<rparr>,
      \<lparr>index = 16, color = (0, 80, 100), name = Some ''train''\<rparr>,
      \<lparr>index = 17, color = (0, 0, 230), name = Some ''motorcycle''\<rparr>,
      \<lparr>index = 18, color = (119, 11, 32), name = Some ''bicycle''\<rparr>,
      \<lparr>index = 19, color = (255, 255, 255), name = Some ''background''\<rparr>]"

definition CityScapesSegmentation :: SegmentationMap where
  "CityScapesSegmentation = \<lparr>labels = cityscape_labels\<rparr>"

definition binary_labels :: "Label list" where
  "binary_labels =
     [\<lparr>index = 0, color = (255, 255, 255), name = Some ''background''\<rparr>,
      \<lparr>index = 1, color = (0, 0, 0), name = Some ''foreground''\<rparr>]"

definition BinarySegmentation :: SegmentationMap where
  "BinarySegmentation = \<lparr>labels = binary_labels\<rparr>"

subsection \<open>Checks and alerts\<close>

text \<open>
  \<^verbatim>\<open>
  class NotebookAlert(Exception):
      def __init__(self, message, alert_class):
          self.message = message; self.alert_class = alert_class
          self.show_message()
      def show_message(self):
          display(HTML(f"""<div class="alert alert-{self.alert_class}">{self.message}"""))
  \<close>
  The interactive display is the list of the HTML fragments shown so far; constructing an
  alert appends one. The devices the inference runtime reports are a parameter.
\<close>

definition NotebookAlert :: "string \<Rightarrow> string \<Rightarrow> string list \<Rightarrow> py_error + string list" where
  \<open>NotebookAlert message alert_class displayed =
     Inr (displayed @ [''<div class="alert alert-'' @ alert_class @ ''">'' @ message])\<close>

fun join :: "string \<Rightarrow> string list \<Rightarrow> string" where
  "join sep [] = []"
| "join sep [x] = x"
| "join sep (x # y # ys) = x @ sep @ join sep (y # ys)"

definition DeviceNotFoundAlert :: "string \<Rightarrow> string list \<Rightarrow> string list \<Rightarrow> py_error + string list" where
  "DeviceNotFoundAlert device available_devices displayed =
     (let message = ''Running this cell requires a '' @ device @ '' device, '' @
                    ''which is not available on this system. ''
      in if length available_devices = 1
         then (case available_devices of
                 [] \<Rightarrow> Inl IndexError
               | d # _ \<Rightarrow> NotebookAlert (message @ ''The following device is available: '' @ d)
                            ''warning'' displayed)
         else NotebookAlert
                (message @ ''The following devices are available: '' @ join '', '' available_devices)
                ''warning'' displayed)"

definition check_device :: "string \<Rightarrow> string list \<Rightarrow> string list \<Rightarrow> (py_error + bool) \<times> string list" where
  "check_device device available_devices displayed =
     (if device \<notin> set available_devices
      then (case DeviceNotFoundAlert device available_devices displayed of
              Inl e \<Rightarrow> (Inl e, displayed)
            | Inr displayed' \<Rightarrow> (Inr False, displayed'))
      else (Inr True, displayed))"

subsection \<open>Segmentation masks: \<^verbatim>\<open>segmentation_map_to_image\<close>\<close>

text \<open>
  A numpy array is its shape and its elements in row-major order. The network result
  holds integers (class indices); \<^verbatim>\<open>astype(np.uint8)\<close> keeps the low eight bits.
\<close>

type_synonym u8 = "8 word"

record 'a ndarray =
  shape :: "nat list"
  elems :: "'a list"

definition zeros :: "nat list \<Rightarrow> u8 ndarray" where
  "zeros shp = \<lparr>shape = shp, elems = replicate (prod_list shp) 0\<rparr>"

definition unique_count :: "int ndarray \<Rightarrow> nat" where
  "unique_count a = length (remdups (elems a))"

definition squeeze0 :: "'a ndarray \<Rightarrow> 'a ndarray" where
  "squeeze0 a = \<lparr>shape = tl (shape a), elems = elems a\<rparr>"

definition astype_uint8 :: "int ndarray \<Rightarrow> u8 ndarray" where
  "astype_uint8 a = \<lparr>shape = shape a, elems = map word_of_int (elems a)\<rparr>"

text \<open>
  The two OpenCV calls of the loop body. A list of contours is represented by the pixels
  that filling all of them covers (a boolean per pixel, row-major), since
  \<^verbatim>\<open>drawContours(..., contourIdx=-1, thickness=cv2.FILLED)\<close> is all the function does with
  it. With \<^verbatim>\<open>RETR_TREE\<close> the contours of the holes are retrieved too and filling covers the
  pixels of the label itself. With \<^verbatim>\<open>RETR_EXTERNAL\<close> only the outer contours are
  retrieved, and filling them also covers what they enclose: every pixel that no path of
  horizontal and vertical steps over pixels outside the label connects to the border of
  the image. \<open>grow\<close> computes the pixels that such a path reaches.
\<close>

datatype contour_mode = RETR_EXTERNAL | RETR_TREE

definition on_border :: "nat \<Rightarrow> nat \<Rightarrow> nat \<Rightarrow> bool" where
  "on_border h w i = (i div w = 0 \<or> i div w = h - 1 \<or> i mod w = 0 \<or> i mod w = w - 1)"

definition touches :: "nat \<Rightarrow> nat \<Rightarrow> bool list \<Rightarrow> nat \<Rightarrow> bool" where
  "touches h w out i =
     ((w \<le> i \<and> out ! (i - w)) \<or> (i + w < h * w \<and> out ! (i + w)) \<or>
      (i mod w \<noteq> 0 \<and> out ! (i - 1)) \<or> (i mod w \<noteq> w - 1 \<and> out ! (i + 1)))"

fun grow :: "nat \<Rightarrow> nat \<Rightarrow> nat \<Rightarrow> bool list \<Rightarrow> bool list \<Rightarrow> bool list" where
  "grow 0 h w m out = out"
| "grow (Suc n) h w m out =
     grow n h w m (map (\<lambda>i. out ! i \<or> (\<not> m ! i \<and> touches h w out i)) [0..<h * w])"

definition outside :: "nat \<Rightarrow> nat \<Rightarrow> bool list \<Rightarrow> bool list" where
  "outside h w m = grow (h * w) h w m (map (\<lambda>i. \<not> m ! i \<and> on_border h w i) [0..<h * w])"

definition findContours :: "nat \<Rightarrow> nat \<Rightarrow> bool list \<Rightarrow> contour_mode \<Rightarrow> bool list" where
  "findContours h w label_index_map mode =
     (case mode of
        RETR_TREE \<Rightarrow> label_index_map
      | RETR_EXTERNAL \<Rightarrow> map Not (outside h w label_index_map))"

text \<open>
  The mask has shape \<open>(H, W, 3)\<close>; pixel \<open>i\<close> (row-major) is the three elements from
  position \<open>3 * i\<close>. Drawing writes the colour, each component saturated to 0..255 as
  OpenCV does for an 8-bit image, into the covered pixels and leaves the others.
\<close>

definition saturate_u8 :: "int \<Rightarrow> u8" where
  "saturate_u8 v = word_of_int (max 0 (min 255 v))"

definition color_u8 :: "rgb \<Rightarrow> u8 list" where
  "color_u8 c = (case c of (r, g, b) \<Rightarrow> [saturate_u8 r, saturate_u8 g, saturate_u8 b])"

definition pixel_at :: "u8 ndarray \<Rightarrow> nat \<Rightarrow> u8 list" where
  "pixel_at msk i = take 3 (drop (3 * i) (elems msk))"

definition drawContours :: "u8 ndarray \<Rightarrow> bool list \<Rightarrow> rgb \<Rightarrow> u8 ndarray" where
  "drawContours msk contours c =
     \<lparr>shape = shape msk,
      elems = concat (map (\<lambda>i. if contours ! i then color_u8 c else pixel_at msk i)
                        [0..<length contours])\<rparr>"

text \<open>
  \<^verbatim>\<open>
  for label_index, color in enumerate(colormap):
      label_index_map = result == label_index
      label_index_map = label_index_map.astype(np.uint8) * 255
      contours, hierarchies = cv2.findContours(label_index_map, contour_mode, cv2.CHAIN_APPROX_SIMPLE)
      cv2.drawContours(mask, contours, contourIdx=-1, color=color.tolist(), thickness=cv2.FILLED)
  \<close>
  \<^verbatim>\<open>findContours\<close> takes a single-channel image: an array of shape \<open>(H, W)\<close> or
  \<open>(H, W, 1)\<close>. Any other array is rejected with an OpenCV error.
\<close>

definition image_size :: "nat list \<Rightarrow> (nat \<times> nat) option" where
  "image_size shp =
     (case shp of
        [h, w] \<Rightarrow> Some (h, w)
      | [h, w, ch] \<Rightarrow> if ch = 1 then Some (h, w) else None
      | _ \<Rightarrow> None)"

fun draw_labels ::
  "contour_mode \<Rightarrow> u8 ndarray \<Rightarrow> nat \<Rightarrow> rgb list \<Rightarrow> u8 ndarray \<Rightarrow> py_error + u8 ndarray" where
  "draw_labels mode result label_index [] msk = Inr msk"
| "draw_labels mode result label_index (c # rest) msk =
     (case image_size (shape result) of
        None \<Rightarrow> Inl CvError
      | Some (h, w) \<Rightarrow>
          let label_index_map = map (\<lambda>v. unat v = label_index) (elems result);
              contours = findContours h w label_index_map mode
          in draw_labels mode result (Suc label_index) rest (drawContours msk contours c))"

text \<open>
  \<^verbatim>\<open>
  def segmentation_map_to_image(result, colormap, remove_holes=False):
      if len(result.shape) != 2 and result.shape[0] != 1:
          raise ValueError(f"Expected result with shape (H,W) or (1,H,W), got ...")
      if len(np.unique(result)) > colormap.shape[0]:
          raise ValueError(f"Expected max {colormap[0]} classes in result, got ...")
      elif result.shape[0] == 1:
          result = result.squeeze(0)
      result = result.astype(np.uint8)
      contour_mode = cv2.RETR_EXTERNAL if remove_holes else cv2.RETR_TREE
      mask = np.zeros((result.shape[0], result.shape[1], 3), dtype=np.uint8)
      for ...
      return mask
  \<close>
  \<^verbatim>\<open>result.shape[0]\<close> of a zero-dimensional array raises \<^verbatim>\<open>IndexError\<close>, and so does
  \<^verbatim>\<open>colormap[0]\<close>, evaluated for the message of the second \<^verbatim>\<open>ValueError\<close>, when the
  colormap has no row.
\<close>

definition segmentation_map_to_image ::
  "int ndarray \<Rightarrow> rgb list \<Rightarrow> bool \<Rightarrow> py_error + u8 ndarray" where
  "segmentation_map_to_image result colormap remove_holes =
     (if length (shape result) \<noteq> 2 \<and> shape result = [] then Inl IndexError
      else if length (shape result) \<noteq> 2 \<and> hd (shape result) \<noteq> 1 then Inl ValueError
      else if unique_count result > length colormap
      then (if colormap = [] then Inl IndexError else Inl ValueError)
      else let result1 = (if hd (shape result) = 1 then squeeze0 result else result);
               result2 = astype_uint8 result1;
               contour_mode = (if remove_holes then RETR_EXTERNAL else RETR_TREE)
           in (case shape result2 of
                 h # w # _ \<Rightarrow> draw_labels contour_mode result2 0 colormap (zeros [h, w, 3])
               | _ \<Rightarrow> Inl IndexError))"

subsection \<open>Files: \<^verbatim>\<open>download_file\<close>, \<^verbatim>\<open>download_ir_model\<close>\<close>

text \<open>
  A path is the list of its components, as \<^verbatim>\<open>pathlib\<close> keeps it in \<^verbatim>\<open>Path.parts\<close> on a
  POSIX system: the string is split at \<^verbatim>\<open>/\<close>, empty components and \<^verbatim>\<open>.\<close> are dropped,
  and a leading \<^verbatim>\<open>/\<close> (or exactly two of them) is the root, the first component.
\<close>

type_synonym path = "string list"

fun split_on :: "char \<Rightarrow> string \<Rightarrow> string list" where
  "split_on c [] = [[]]"
| "split_on c (x # xs) =
     (if x = c then [] # split_on c xs
      else (case split_on c xs of [] \<Rightarrow> [[x]] | y # ys \<Rightarrow> (x # y) # ys))"

definition path_root :: "string \<Rightarrow> string" where
  "path_root s =
     (if take 2 s = ''//'' \<and> take 3 s \<noteq> ''///'' then ''//''
      else if take 1 s = ''/'' then ''/'' else [])"

definition Path :: "string \<Rightarrow> path" where
  "Path s =
     (let comps = filter (\<lambda>c. c \<noteq> [] \<and> c \<noteq> ''.'') (split_on CHR ''/'' s)
      in if path_root s = [] then comps else path_root s # comps)"

definition is_root :: "string \<Rightarrow> bool" where
  "is_root c = (c = ''/'' \<or> c = ''//'')"

definition is_absolute :: "path \<Rightarrow> bool" where
  "is_absolute p = (case p of [] \<Rightarrow> False | c # _ \<Rightarrow> is_root c)"

definition path_name :: "path \<Rightarrow> string" where
  "path_name p = (if p = [] \<or> (is_absolute p \<and> length p = 1) then [] else last p)"

definition join_path :: "path \<Rightarrow> path \<Rightarrow> path" where
  "join_path d p = (if is_absolute p then p else d @ p)"

definition path_str :: "path \<Rightarrow> string" where
  "path_str p =
     (if p = [] then ''.''
      else if is_absolute p then hd p @ join ''/'' (tl p)
      else join ''/'' p)"

text \<open>
  \<^verbatim>\<open>Path.resolve()\<close>: the path is made absolute from the working directory and every
  \<^verbatim>\<open>..\<close> removes the component before it (the root stays). Symbolic links are not
  modelled.
\<close>

definition pop_push :: "path \<Rightarrow> string \<Rightarrow> path" where
  "pop_push acc c =
     (if c = ''..'' then (if length acc \<le> 1 then acc else butlast acc) else acc @ [c])"

definition resolve :: "path \<Rightarrow> path \<Rightarrow> path" where
  "resolve wd p = foldl pop_push [] (if is_absolute p then p else wd @ p)"

text \<open>
  The path component of a URL as \<^verbatim>\<open>urllib.parse.urlparse(url).path\<close> gives it: the scheme
  (up to the first \<^verbatim>\<open>:\<close>) and the network location (after \<^verbatim>\<open>//\<close>) are removed, the
  path ends at the first \<^verbatim>\<open>?\<close> or \<^verbatim>\<open>#\<close>, and parameters (after \<^verbatim>\<open>;\<close>) are cut off its
  last segment.
\<close>

definition scheme_chars :: string where
  "scheme_chars = ''abcdefghijklmnopqrstuvwxyzABCDEFGHIJKLMNOPQRSTUVWXYZ0123456789+-.''"

definition drop_scheme :: "string \<Rightarrow> string" where
  "drop_scheme url =
     (let sch = takeWhile (\<lambda>c. c \<noteq> CHR '':'') url;
          rest = drop (Suc (length sch)) url
      in if sch \<noteq> [] \<and> length sch < length url \<and> list_all (\<lambda>c. c \<in> set scheme_chars) sch
            \<and> (rest = [] \<or> list_ex (\<lambda>c. c \<notin> set ''0123456789'') rest)
         then rest else url)"

definition drop_netloc :: "string \<Rightarrow> string" where
  "drop_netloc u =
     (if take 2 u = ''//''
      then dropWhile (\<lambda>c. c \<noteq> CHR ''/'' \<and> c \<noteq> CHR ''?'' \<and> c \<noteq> CHR ''#'') (drop 2 u)
      else u)"

definition drop_params :: "string \<Rightarrow> string" where
  "drop_params u =
     (let seg = rev (takeWhile (\<lambda>c. c \<noteq> CHR ''/'') (rev u))
      in take (length u - length seg) u @ takeWhile (\<lambda>c. c \<noteq> CHR '';'') seg)"

definition url_path :: "string \<Rightarrow> string" where
  "url_path url =
     drop_params (takeWhile (\<lambda>c. c \<noteq> CHR ''?'' \<and> c \<noteq> CHR ''#'') (drop_netloc (drop_scheme url)))"

text \<open>
  The world the download runs in: what the remote host answers to a request for a URL
  (an HTTP error status, or a response with its headers and body), the local files and
  directories under their resolved paths, the working directory, the size the system
  reports for a directory, the URLs that \<^verbatim>\<open>urlretrieve\<close> has fetched and the lines
  printed. Failures of the network other than an HTTP error status, permissions and
  malformed \<^verbatim>\<open>Content-Length\<close> headers are not modelled.
\<close>

datatype node = File "u8 list" | Dir

record response =
  header_filename :: "string option"
  content_length :: "int option"
  body :: "u8 list"

datatype fetch = Refused nat string | Response response

record world =
  remote :: "string \<Rightarrow> fetch"
  fs :: "path \<Rightarrow> node option"
  cwd :: path
  dir_size :: int
  retrieved :: "string list"
  printed :: "string list"

definition st_size :: "world \<Rightarrow> node \<Rightarrow> int" where
  "st_size s nd = (case nd of File b \<Rightarrow> int (length b) | Dir \<Rightarrow> dir_size s)"

text \<open>
  \<^verbatim>\<open>directory.mkdir(parents=True, exist_ok=True)\<close>: every ancestor and the directory itself
  is created unless it is there; a file in the way is an \<^verbatim>\<open>OSError\<close>
  (\<^verbatim>\<open>FileExistsError\<close>, \<^verbatim>\<open>NotADirectoryError\<close>).
\<close>

fun mkdir_chain :: "path list \<Rightarrow> (path \<Rightarrow> node option) \<Rightarrow> (py_error + unit) \<times> (path \<Rightarrow> node option)" where
  "mkdir_chain [] f = (Inr (), f)"
| "mkdir_chain (q # qs) f =
     (case f q of
        Some (File b) \<Rightarrow> (Inl OSError, f)
      | Some Dir \<Rightarrow> mkdir_chain qs f
      | None \<Rightarrow> mkdir_chain qs (f(q \<mapsto> Dir)))"

definition mkdir_parents :: "path \<Rightarrow> world \<Rightarrow> (py_error + unit) \<times> world" where
  "mkdir_parents d s =
     (case mkdir_chain (tl (prefixes (resolve (cwd s) d))) (fs s) of
        (r, f) \<Rightarrow> (r, s\<lparr>fs := f\<rparr>))"

text \<open>
  \<^verbatim>\<open>urllib.request.urlretrieve(url, filename)\<close> requests the URL again, writes the body to
  the file and raises \<^verbatim>\<open>ContentTooShortError\<close> afterwards when fewer bytes arrived than
  the \<^verbatim>\<open>Content-Length\<close> header announced. Opening a directory for writing is an
  \<^verbatim>\<open>OSError\<close>.
\<close>

definition urlretrieve :: "string \<Rightarrow> path \<Rightarrow> world \<Rightarrow> (py_error + unit) \<times> world" where
  "urlretrieve url filename s =
     (case remote s url of
        Refused code msg \<Rightarrow> (Inl (HTTPError code msg), s)
      | Response r \<Rightarrow>
          (case fs s (resolve (cwd s) filename) of
             Some Dir \<Rightarrow> (Inl OSError, s)
           | _ \<Rightarrow>
               let s' = s\<lparr>fs := (fs s)(resolve (cwd s) filename \<mapsto> File (body r)),
                          retrieved := retrieved s @ [url]\<rparr>
               in (case content_length r of
                     None \<Rightarrow> (Inr (), s')
                   | Some n \<Rightarrow>
                       if 0 \<le> n \<and> int (length (body r)) < n
                       then (Inl ContentTooShortError, s') else (Inr (), s'))))"

text \<open>
  \<^verbatim>\<open>
  def download_file(url, filename=None, directory=None, show_progress=True, silent=False):
      try:
          ...
          urlobject = urllib.request.urlopen(url)
          if filename is None:
              filename = urlobject.info().get_filename() or Path(urllib.parse.urlparse(url).path).name
      except urllib.error.HTTPError as e:
          raise Exception(f"File downloading failed with error: {e.code} {e.msg}") from None
      filename = Path(filename)
      if len(filename.parts) > 1:
          raise ValueError(...)
      if directory is not None:
          directory = Path(directory)
          directory.mkdir(parents=True, exist_ok=True)
          filename = directory / Path(filename)
      urlobject_size = int(urlobject.info().get("Content-Length", 0))
      if not filename.exists() or (os.stat(filename).st_size != urlobject_size):
          progress_callback = DownloadProgressBar(...)
          urllib.request.urlretrieve(url, filename, reporthook=progress_callback.update_to)
          ...
      else:
          if not silent:
              print(f"'{filename}' already exists.")
      return filename.resolve()
  \<close>
  The progress bar only reports; it is left out. \<open>Exception code msg\<close> stands for the
  exception with the message built from the status code and its reason.
\<close>

definition default_filename :: "response \<Rightarrow> string \<Rightarrow> string" where
  "default_filename r url =
     (case header_filename r of
        None \<Rightarrow> path_name (Path (url_path url))
      | Some f \<Rightarrow> if f = [] then path_name (Path (url_path url)) else f)"

definition urlobject_size :: "response \<Rightarrow> int" where
  "urlobject_size r = (case content_length r of None \<Rightarrow> 0 | Some n \<Rightarrow> n)"

definition download_file ::
  "string \<Rightarrow> string option \<Rightarrow> string option \<Rightarrow> bool \<Rightarrow> bool \<Rightarrow> world \<Rightarrow> (py_error + path) \<times> world" where
  "download_file url filename directory show_progress silent s =
     (case remote s url of
        Refused code msg \<Rightarrow> (Inl (Exception code msg), s)
      | Response r \<Rightarrow>
          let fname = Path (case filename of None \<Rightarrow> default_filename r url | Some f \<Rightarrow> f)
          in if length fname > 1 then (Inl ValueError, s)
             else
               (case (case directory of
                        None \<Rightarrow> (Inr fname, s)
                      | Some d \<Rightarrow>
                          (case mkdir_parents (Path d) s of
                             (Inl e, s1) \<Rightarrow> (Inl e, s1)
                           | (Inr u, s1) \<Rightarrow> (Inr (join_path (Path d) fname), s1))) of
                  (Inl e, s1) \<Rightarrow> (Inl e, s1)
                | (Inr target, s1) \<Rightarrow>
                    if (case fs s1 (resolve (cwd s1) target) of
                          None \<Rightarrow> True
                        | Some nd \<Rightarrow> st_size s1 nd \<noteq> urlobject_size r)
                    then (case urlretrieve url target s1 of
                            (Inl e, s2) \<Rightarrow> (Inl e, s2)
                          | (Inr u, s2) \<Rightarrow> (Inr (resolve (cwd s2) target), s2))
                    else (Inr (resolve (cwd s1) target),
                          if silent then s1
                          else s1\<lparr>printed := printed s1 @
                                    [[CHR 0x27] @ path_str target @ [CHR 0x27] @ '' already exists.'']\<rparr>)))"


text \<open>
  Notions the statements about the download use: the components of the directory
  argument, the path the file is written to, the directories that \<^verbatim>\<open>mkdir\<close> visits, the
  name taken from the argument or else from the response and the URL, a name that is a
  single component below its directory, whether a path holds a file, and a response whose
  body is as long as announced. \<open>sample_world\<close> is a world for the examples: a host that
  serves a descriptor and its weights, and a working directory with one file.
\<close>

definition dir_parts :: "string option \<Rightarrow> path" where
  "dir_parts directory = (case directory of None \<Rightarrow> [] | Some d \<Rightarrow> Path d)"

definition target_path :: "string option \<Rightarrow> path \<Rightarrow> path" where
  "target_path directory fname = join_path (dir_parts directory) fname"

definition dir_chain :: "world \<Rightarrow> string option \<Rightarrow> path list" where
  "dir_chain s directory =
     (case directory of None \<Rightarrow> [] | Some d \<Rightarrow> tl (prefixes (resolve (cwd s) (Path d))))"

definition requested_name :: "string option \<Rightarrow> response \<Rightarrow> string \<Rightarrow> path" where
  "requested_name filename r url =
     Path (case filename of None \<Rightarrow> default_filename r url | Some f \<Rightarrow> f)"




definition sample_world :: world where
  "sample_world =
     \<lparr>remote = (\<lambda>u. if u = ''http://h/m/seg.xml''
                      then Response \<lparr>header_filename = None, content_length = Some 3, body = [1, 2, 3]\<rparr>
                      else if u = ''http://h/m/seg.bin''
                      then Response \<lparr>header_filename = None, content_length = Some 2, body = [9, 8]\<rparr>
                      else Refused 404 ''Not Found''),
      fs = [[''/''] \<mapsto> Dir, [''/'', ''w''] \<mapsto> Dir, [''/'', ''w'', ''seg.xml''] \<mapsto> File [7, 7, 7]],
      cwd = [''/'', ''w''], dir_size = 4096, retrieved = [], printed = []\<rparr>"

section \<open>Properties\<close>









text \<open>
  C6, as stated: the colormap indexed by a label's \<open>index\<close> field yields that label's
  colour. The colormap is built in list order and never looks at the \<open>index\<close> field: in
  the map below the first label carries index 1, and row 1 of the colormap is the colour of
  the other label.
\<close>

theorem get_colormap_by_index_counterexample:
  "\<lparr>index = 1, color = (255, 0, 0), name = None\<rparr>
     \<in> set (labels \<lparr>labels = [\<lparr>index = 1, color = (255, 0, 0), name = None\<rparr>,
                               \<lparr>index = 0, color = (0, 0, 255), name = None\<rparr>]\<rparr>)
   \<and> row_at (get_colormap \<lparr>labels = [\<lparr>index = 1, color = (255, 0, 0), name = None\<rparr>,
                                      \<lparr>index = 0, color = (0, 0, 255), name = None\<rparr>]\<rparr>)
        (index \<lparr>index = 1, color = (255, 0, 0), name = None\<rparr>)
     = Inr (0, 0, 255)
   \<and> color \<lparr>index = 1, color = (255, 0, 0), name = None\<rparr> \<noteq> (0, 0, 255)"
  by (simp add: get_colormap_def row_at_def)

text \<open>
  C6, amended: when every label carries its position in the list as \<open>index\<close> (as the
  labels of \<open>CityScapesSegmentation\<close> and \<open>BinarySegmentation\<close> do), the colormap
  indexed by a label's \<open>index\<close> yields that label's colour.
\<close>

theorem get_colormap_by_index:
  assumes "map index (labels self) = map int [0..<length (labels self)]"
  shows "\<forall>l\<in>set (labels self). row_at (get_colormap self) (index l) = Inr (color l)"
proof
  fix l assume "l \<in> set (labels self)"
  then obtain i where i: "i < length (labels self)" "labels self ! i = l"
    by (auto simp: in_set_conv_nth)
  have "map index (labels self) ! i = map int [0..<length (labels self)] ! i"
    using assms by simp
  with i have "index l = int i" by simp
  with i show "row_at (get_colormap self) (index l) = Inr (color l)"
    by (simp add: row_at_def get_colormap_def)
qed

theorem get_colormap_by_index_witness:
  "map index (labels BinarySegmentation) = map int [0..<length (labels BinarySegmentation)]
   \<and> row_at (get_colormap BinarySegmentation) 0 = Inr (255, 255, 255)
   \<and> row_at (get_colormap BinarySegmentation) 1 = Inr (0, 0, 0)"
proof -
  have h: "map index (labels BinarySegmentation) = map int [0..<length (labels BinarySegmentation)]"
    by (simp add: BinarySegmentation_def binary_labels_def upt_rec)
  have "\<forall>l\<in>set (labels BinarySegmentation).
          row_at (get_colormap BinarySegmentation) (index l) = Inr (color l)"
    using get_colormap_by_index [OF h] .
  then show ?thesis
    using h by (simp add: BinarySegmentation_def binary_labels_def)
qed

lemma cityscapes_index_is_position:
  "map index (labels CityScapesSegmentation) = map int [0..<length (labels CityScapesSegmentation)]"
  by (simp add: CityScapesSegmentation_def cityscape_labels_def upt_rec)

text \<open>
  C9. \<open>check_device\<close> returns \<open>True\<close> exactly when the device is among the available
  devices. When it is not, one warning alert is shown on the display and \<open>False\<close> is
  returned; no exception leaves the function in either case.
\<close>

theorem check_device_spec:
  \<open>check_device device available_devices displayed =
     (if device \<in> set available_devices then (Inr True, displayed)
      else (Inr False,
            displayed @
              [''<div class="alert alert-warning">'' @
               ''Running this cell requires a '' @ device @
               '' device, which is not available on this system. '' @
               (if length available_devices = 1
                then ''The following device is available: '' @ hd available_devices
                else ''The following devices are available: '' @ join '', '' available_devices)]))\<close>
  by (cases available_devices)
     (simp_all add: check_device_def DeviceNotFoundAlert_def NotebookAlert_def)

theorem check_device_spec_witness:
  \<open>check_device ''CPU'' [''CPU'', ''GPU''] [] = (Inr True, [])
   \<and> check_device ''HELLOWORLD'' [''CPU''] [] =
       (Inr False,
        [''<div class="alert alert-warning">Running this cell requires a HELLOWORLD device, which is not available on this system. The following device is available: CPU''])\<close>
proof -
  have a: "check_device ''CPU'' [''CPU'', ''GPU''] [] = (Inr True, [])"
    using check_device_spec [of "''CPU''" "[''CPU'', ''GPU'']" "[]"] by simp
  have b: \<open>check_device ''HELLOWORLD'' [''CPU''] [] =
       (Inr False,
        [''<div class="alert alert-warning">Running this cell requires a HELLOWORLD device, which is not available on this system. The following device is available: CPU''])\<close>
    using check_device_spec [of "''HELLOWORLD''" "[''CPU'']" "[]"] by simp
  from a b show ?thesis ..
qed















lemma rejects_unexpected_rank:
  assumes "shape result \<noteq> []" and "length (shape result) \<noteq> 2" and "hd (shape result) \<noteq> 1"
  shows "segmentation_map_to_image result colormap remove_holes = Inl ValueError"
  using assms by (simp add: segmentation_map_to_image_def)

lemma rejects_too_many_classes:
  assumes "shape result \<noteq> []" and "colormap \<noteq> []"
    and "unique_count result > length colormap"
  shows "segmentation_map_to_image result colormap remove_holes = Inl ValueError"
  using assms by (simp add: segmentation_map_to_image_def)

text \<open>
  C3. More distinct values than colormap rows must give a \<open>ValueError\<close>. With a colormap
  without rows the message of that error cannot be built (\<^verbatim>\<open>colormap[0]\<close>), and the call
  ends in an \<open>IndexError\<close> instead.
\<close>

theorem too_many_classes_empty_colormap:
  "unique_count \<lparr>shape = [2, 2], elems = [0, 1, 1, 0]\<rparr> > length ([] :: rgb list)
   \<and> segmentation_map_to_image \<lparr>shape = [2, 2], elems = [0, 1, 1, 0]\<rparr> [] False
       = Inl IndexError"
  by (simp add: segmentation_map_to_image_def unique_count_def)

text \<open>
  C4. A result whose shape is neither \<open>(H, W)\<close> nor \<open>(1, H, W)\<close> must give a
  \<open>ValueError\<close>. The guard lets every shape with a leading 1 through: a one-dimensional
  result of shape \<open>(1)\<close> ends in an \<open>IndexError\<close>, a four-dimensional one of shape
  \<open>(1, 2, 2, 2)\<close> in an OpenCV error.
\<close>

theorem unexpected_shape_not_rejected:
  "segmentation_map_to_image \<lparr>shape = [1], elems = [0]\<rparr>
       [(255, 255, 255), (0, 0, 0)] False = Inl IndexError
   \<and> segmentation_map_to_image \<lparr>shape = [1, 2, 2, 2], elems = [0, 0, 0, 0, 0, 0, 0, 0]\<rparr>
       [(255, 255, 255), (0, 0, 0)] False = Inl CvError"
  by (simp add: segmentation_map_to_image_def unique_count_def squeeze0_def astype_uint8_def
      image_size_def)


lemma one_row_matrix_fails:
  "segmentation_map_to_image \<lparr>shape = [1, 2], elems = [0, 1]\<rparr>
     [(255, 255, 255), (0, 0, 0)] False = Inl IndexError"
  by (simp add: segmentation_map_to_image_def unique_count_def squeeze0_def astype_uint8_def)



lemma mkdir_chain_noop:
  "list_all (\<lambda>q. f q = Some Dir) qs \<Longrightarrow> mkdir_chain qs f = (Inr (), f)"
  by (induction qs) simp_all




lemma target_path_None: "target_path None fname = fname"
  by (simp add: target_path_def dir_parts_def join_path_def)

lemma target_path_Some: "target_path (Some d) fname = join_path (Path d) fname"
  by (simp add: target_path_def dir_parts_def)

lemma mkdir_parents_noop:
  assumes "list_all (\<lambda>q. fs s q = Some Dir) (dir_chain s (Some d))"
  shows "mkdir_parents (Path d) s = (Inr (), s)"
  using assms by (simp add: mkdir_parents_def dir_chain_def mkdir_chain_noop)

text \<open>
  C5. When the target file exists and its size equals the size the response announces
  (the \<^verbatim>\<open>Content-Length\<close> header), \<open>download_file\<close> retrieves nothing, leaves the local
  files as they are and returns the resolved path of the file. The directory, when one is
  given, exists already, since the file is in it.
\<close>

theorem download_file_skips_existing:
  assumes "remote s url = Response r"
    and "length (requested_name filename r url) \<le> 1"
    and "list_all (\<lambda>q. fs s q = Some Dir) (dir_chain s directory)"
    and "fs s (resolve (cwd s) (target_path directory (requested_name filename r url))) = Some (File b)"
    and "urlobject_size r = int (length b)"
  shows "\<exists>s'. download_file url filename directory show_progress silent s
                = (Inr (resolve (cwd s) (target_path directory (requested_name filename r url))), s')
              \<and> fs s' = fs s \<and> retrieved s' = retrieved s"
proof (cases directory)
  case None
  have "fs s (resolve (cwd s) (requested_name filename r url)) = Some (File b)"
    using assms(4) None by (simp add: target_path_None)
  then show ?thesis
    using assms(1,2,5) None
    by (simp add: download_file_def requested_name_def target_path_None st_size_def Let_def)
next
  case (Some d)
  have "mkdir_parents (Path d) s = (Inr (), s)"
    using assms(3) Some by (simp add: mkdir_parents_noop)
  moreover have "fs s (resolve (cwd s) (join_path (Path d) (requested_name filename r url)))
                   = Some (File b)"
    using assms(4) Some by (simp add: target_path_Some)
  ultimately show ?thesis
    using assms(1,2,5) Some
    by (simp add: download_file_def requested_name_def target_path_Some st_size_def Let_def)
qed


theorem download_file_skips_existing_witness:
  "fs sample_world [''/'', ''w'', ''seg.xml''] = Some (File [7, 7, 7])
   \<and> urlobject_size \<lparr>header_filename = None, content_length = Some 3, body = [1, 2, 3]\<rparr>
       = int (length [7, 7, 7 :: u8])
   \<and> fst (download_file ''http://h/m/seg.xml'' None None True True sample_world)
       = Inr [''/'', ''w'', ''seg.xml'']
   \<and> fs (snd (download_file ''http://h/m/seg.xml'' None None True True sample_world))
         [''/'', ''w'', ''seg.xml''] = Some (File [7, 7, 7])
   \<and> retrieved (snd (download_file ''http://h/m/seg.xml'' None None True True sample_world)) = []"
proof -
  let ?r = "\<lparr>header_filename = None, content_length = Some 3, body = [1, 2, 3 :: u8]\<rparr>"
  let ?url = "''http://h/m/seg.xml''"
  have nm: "requested_name None ?r ?url = [''seg.xml'']"
    by code_simp
  have T: "resolve (cwd sample_world) (target_path None [''seg.xml'']) = [''/'', ''w'', ''seg.xml'']"
    by code_simp
  have h1: "remote sample_world ?url = Response ?r"
    by (simp add: sample_world_def)
  have h2: "length (requested_name None ?r ?url) \<le> 1"
    using nm by simp
  have h3: "list_all (\<lambda>q. fs sample_world q = Some Dir) (dir_chain sample_world None)"
    by (simp add: dir_chain_def)
  have f: "fs sample_world [''/'', ''w'', ''seg.xml''] = Some (File [7, 7, 7])"
    by (simp add: sample_world_def)
  have h4: "fs sample_world (resolve (cwd sample_world)
              (target_path None (requested_name None ?r ?url))) = Some (File [7, 7, 7])"
    using f nm T by simp
  have h5: "urlobject_size ?r = int (length [7, 7, 7 :: u8])"
    by (simp add: urlobject_size_def)
  from download_file_skips_existing [OF h1 h2 h3 h4 h5, of True True]
  obtain s' where "download_file ?url None None True True sample_world
                     = (Inr (resolve (cwd sample_world)
                          (target_path None (requested_name None ?r ?url))), s')"
    and "fs s' = fs sample_world" and "retrieved s' = retrieved sample_world"
    by blast
  then show ?thesis
    using f h5 nm T by (simp add: sample_world_def)
qed

text \<open>
  C7, as stated: a filename of more than one component gives a \<open>ValueError\<close>. The URL is
  opened before the filename is looked at: when the host answers with an HTTP error
  status, that error is what the call raises.
\<close>

theorem nested_filename_http_error_counterexample:
  "length (Path ''model/weights.bin'') > 1
   \<and> download_file ''http://h/m/missing.bin'' (Some ''model/weights.bin'') None True False
        sample_world
      = (Inl (Exception 404 ''Not Found''), sample_world)"
proof -
  have "length (Path ''model/weights.bin'') > 1" by code_simp
  moreover have "remote sample_world ''http://h/m/missing.bin'' = Refused 404 ''Not Found''"
    by (simp add: sample_world_def)
  then have "download_file ''http://h/m/missing.bin'' (Some ''model/weights.bin'') None True False
        sample_world = (Inl (Exception 404 ''Not Found''), sample_world)"
    by (simp add: download_file_def)
  ultimately show ?thesis by simp
qed

lemma dot_slash_filename_accepted:
  "Path ''./weights.bin'' = [''weights.bin'']
   \<and> fst (download_file ''http://h/m/seg.bin'' (Some ''./weights.bin'') None True False sample_world)
       = Inr [''/'', ''w'', ''weights.bin'']"
  by code_simp

text \<open>
  C7, amended: when the URL can be opened, a filename argument of more than one component
  gives a \<open>ValueError\<close>, and the world is as before: nothing is written, no directory is
  created.
\<close>

theorem download_file_rejects_nested_filename:
  assumes "remote s url = Response r" and "length (Path f) > 1"
  shows "download_file url (Some f) directory show_progress silent s = (Inl ValueError, s)"
  using assms by (simp add: download_file_def)

theorem download_file_rejects_nested_filename_witness:
  "remote sample_world ''http://h/m/seg.bin''
     = Response \<lparr>header_filename = None, content_length = Some 2, body = [9, 8]\<rparr>
   \<and> length (Path ''model/weights.bin'') > 1
   \<and> download_file ''http://h/m/seg.bin'' (Some ''model/weights.bin'') None True False sample_world
       = (Inl ValueError, sample_world)"
proof -
  have h1: "remote sample_world ''http://h/m/seg.bin''
     = Response \<lparr>header_filename = None, content_length = Some 2, body = [9, 8]\<rparr>"
    by (simp add: sample_world_def)
  have h2: "length (Path ''model/weights.bin'') > 1" by code_simp
  from download_file_rejects_nested_filename [OF h1 h2, of None True False] h1 h2
  show ?thesis by simp
qed



end
